theory Spec2Isabelle
  imports Complex_Main "HOL-Library.Word" "HOL-Library.Sublist"
begin

section \<open>JavaScript strings and values\<close>

text \<open>
  A JavaScript string is a sequence of UTF-16 code units. Literals of the source are all
  ASCII and are written through \<open>js\<close>.
\<close>

type_synonym jschar = "16 word"
type_synonym jsstring = "jschar list"

definition js :: "string \<Rightarrow> jsstring" where
  "js s = map of_char s"

text \<open>
  \<open>String.prototype.trim\<close> removes, at both ends, the code units of ECMAScript's
  WhiteSpace and LineTerminator productions: TAB, LF, VT, FF, CR, SP, NBSP, U+1680,
  U+2000 to U+200A, LS, PS, U+202F, U+205F, U+3000 and the BOM U+FEFF.
\<close>

definition is_white_space :: "jschar \<Rightarrow> bool" where
  "is_white_space c = (c \<in> set [0x0009, 0x000A, 0x000B, 0x000C, 0x000D, 0x0020, 0x00A0,
     0x1680, 0x2000, 0x2001, 0x2002, 0x2003, 0x2004, 0x2005, 0x2006, 0x2007, 0x2008,
     0x2009, 0x200A, 0x2028, 0x2029, 0x202F, 0x205F, 0x3000, 0xFEFF])"

definition trim :: "jsstring \<Rightarrow> jsstring" where
  "trim s = rev (dropWhile is_white_space (rev (dropWhile is_white_space s)))"

text \<open>
  The values the program handles: what \<open>JSON.parse\<close> produces (null, booleans, numbers,
  strings, arrays, objects with their members in body order), \<open>undefined\<close>, and the
  built-in functions and objects that a property lookup can reach on \<open>Object.prototype\<close>.
\<close>

datatype jsval =
    JUndefined
  | JNull
  | JBool bool
  | JNum rat
  | JStr jsstring
  | JArr "jsval list"
  | JObj "(jsstring \<times> jsval) list"
  | JNative jsstring

text \<open>ToBoolean, as \<open>||\<close>, \<open>!\<close> and \<open>if\<close> apply it.\<close>

fun truthy :: "jsval \<Rightarrow> bool" where
  "truthy JUndefined = False"
| "truthy JNull = False"
| "truthy (JBool b) = b"
| "truthy (JNum n) = (n \<noteq> 0)"
| "truthy (JStr s) = (s \<noteq> [])"
| "truthy (JArr xs) = True"
| "truthy (JObj kvs) = True"
| "truthy (JNative n) = True"

text \<open>\<open>a || b\<close> and \<open>a ?? b\<close>.\<close>

definition js_or :: "jsval \<Rightarrow> jsval \<Rightarrow> jsval" where
  "js_or a b = (if truthy a then a else b)"

definition nullish :: "jsval \<Rightarrow> jsval \<Rightarrow> jsval" where
  "nullish a b = (if a = JUndefined \<or> a = JNull then b else a)"

fun is_string :: "jsval \<Rightarrow> bool" where
  "is_string (JStr s) = True"
| "is_string v = False"

text \<open>
  An object written as a literal, or parsed from JSON, inherits from \<open>Object.prototype\<close>:
  a lookup that finds no own property continues there. Of two members with one name the
  later one counts.
\<close>

definition Object_prototype :: "(jsstring \<times> jsval) list" where
  "Object_prototype = map (\<lambda>n. (js n, JNative (js n)))
     [''constructor'', ''__proto__'', ''hasOwnProperty'', ''isPrototypeOf'',
      ''propertyIsEnumerable'', ''toLocaleString'', ''toString'', ''valueOf'',
      ''__defineGetter__'', ''__defineSetter__'', ''__lookupGetter__'', ''__lookupSetter__'']"

definition get_prop :: "(jsstring \<times> jsval) list \<Rightarrow> jsstring \<Rightarrow> jsval" where
  "get_prop own k =
     (case map_of (rev own) k of
        Some v \<Rightarrow> v
      | None \<Rightarrow> (case map_of Object_prototype k of Some v \<Rightarrow> v | None \<Rightarrow> JUndefined))"

text \<open>Error objects: their \<open>name\<close> and \<open>message\<close>.\<close>

datatype js_error = JsError (err_name: jsstring) (err_message: jsstring)

text \<open>\<open>String(err)\<close> is \<open>Error.prototype.toString\<close>.\<close>

definition error_toString :: "js_error \<Rightarrow> jsstring" where
  "error_toString e =
     (if err_name e = [] then err_message e
      else if err_message e = [] then err_name e
      else err_name e @ js '': '' @ err_message e)"

text \<open>
  Reading \<open>data.k\<close>. On \<open>undefined\<close> and \<open>null\<close> it throws a TypeError (the wording of its
  message is the engine's; V8's is used). The program reads the names \<open>sql\<close> and
  \<open>explanation\<close> only: a string, number, boolean, array or function has no property of
  either name, so the read gives \<open>undefined\<close> there.
\<close>

definition cannot_read :: "string \<Rightarrow> jsstring \<Rightarrow> js_error" where
  "cannot_read what k =
     JsError (js ''TypeError'')
       (js ''Cannot read properties of '' @ js what @ js '' (reading '' @ [0x27] @ k @ [0x27]
          @ js '')'')"

fun member :: "jsval \<Rightarrow> jsstring \<Rightarrow> js_error + jsval" where
  "member JUndefined k = Inl (cannot_read ''undefined'' k)"
| "member JNull k = Inl (cannot_read ''null'' k)"
| "member (JObj kvs) k = Inr (get_prop kvs k)"
| "member v k = Inr JUndefined"

section \<open>The query service client\<close>

text \<open>The endpoints, by model identifier (the shell component).\<close>

definition ENDPOINTS :: "(jsstring \<times> jsval) list" where
  "ENDPOINTS =
     [(js ''keyword'', JStr (js ''https://generate-sql.local/generate_sql'')),
      (js ''cluster'', JStr (js ''https://generate-sql.local/generate_sql_premium''))]"

text \<open>The one endpoint of the boxed component.\<close>

definition API_URL :: jsval where
  "API_URL = JStr (js ''https://generate-sql.local/generate_sql'')"

text \<open>
  What \<open>fetch\<close> is called with: the URL argument, and the method, headers and body of its
  options. The body is \<open>JSON.stringify(payload)\<close>; the record keeps the payload that is
  serialised.
\<close>

record request =
  url :: jsval
  http_method :: jsstring
  headers :: "(jsstring \<times> jsstring) list"
  body :: jsval

text \<open>
  What \<open>fetch\<close> resolves with: the status (\<open>res.ok\<close> is true for 200 to 299), the body as
  \<open>res.text()\<close> gives it, and what \<open>res.json()\<close> gives: the parsed body, or the SyntaxError
  it rejects with when the body is not JSON.
\<close>

record response =
  status :: nat
  text_body :: jsstring
  json_body :: "js_error + jsval"

definition ok :: "response \<Rightarrow> bool" where
  "ok res = (200 \<le> status res \<and> status res \<le> 299)"

text \<open>
  The promise \<open>fetch\<close> returns stays pending for ever, is rejected (a network failure), or
  is fulfilled with a response (of any status).
\<close>

datatype fetch_outcome = Pending | Rejected js_error | Fulfilled response

text \<open>The object \<open>callGenerateSqlAPI\<close> returns.\<close>

record generated =
  result_sql :: jsval
  result_explanation :: jsval

text \<open>
  The argument \<open>modelId\<close> is a string, or is omitted (\<open>undefined\<close>). As a property key
  \<open>undefined\<close> is the string \<open>"undefined"\<close>.
\<close>

definition arg_value :: "jsstring option \<Rightarrow> jsval" where
  "arg_value a = (case a of None \<Rightarrow> JUndefined | Some s \<Rightarrow> JStr s)"

definition property_key :: "jsstring option \<Rightarrow> jsstring" where
  "property_key a = (case a of None \<Rightarrow> js ''undefined'' | Some s \<Rightarrow> s)"

text \<open>\<open>callGenerateSqlAPI\<close> of the shell component, up to the call of \<open>fetch\<close>.\<close>

definition api_request :: "jsstring \<Rightarrow> jsstring option \<Rightarrow> request" where
  "api_request question modelId =
     (let apiUrl = js_or (get_prop ENDPOINTS (property_key modelId))
                         (get_prop ENDPOINTS (js ''keyword''));
          payload = JObj
            [(js ''question'', JStr question),
             (js ''schema_path'', JStr (js ''schema_tree.json'')),
             (js ''keywords_path'', JStr (js ''keyword_to_tables.json'')),
             (js ''dialect'', JStr (js ''mysql'')),
             (js ''model'', js_or (arg_value modelId) (JStr (js ''gpt-5'')))]
      in \<lparr>url = apiUrl, http_method = js ''POST'',
          headers = [(js ''Content-Type'', js ''application/json'')],
          body = payload\<rparr>)"

text \<open>The same of the boxed component, which takes the question only.\<close>

definition api_request_boxed :: "jsstring \<Rightarrow> request" where
  "api_request_boxed question =
     (let payload = JObj
            [(js ''question'', JStr question),
             (js ''schema_path'', JStr (js ''schema_tree.json'')),
             (js ''keywords_path'', JStr (js ''keyword_to_tables.json'')),
             (js ''dialect'', JStr (js ''mysql'')),
             (js ''model'', JStr (js ''gpt-5''))]
      in \<lparr>url = API_URL, http_method = js ''POST'',
          headers = [(js ''Content-Type'', js ''application/json'')],
          body = payload\<rparr>)"

text \<open>
  \<open>callGenerateSqlAPI\<close> from the response on (the same in both components): throw an
  Error carrying the body text unless \<open>res.ok\<close>, else parse the body and read the two
  fields, each defaulted by \<open>??\<close>.
\<close>

definition read_response :: "response \<Rightarrow> js_error + generated" where
  "read_response res =
     (if \<not> ok res then Inl (JsError (js ''Error'') (text_body res))
      else (case json_body res of
              Inl e \<Rightarrow> Inl e
            | Inr data \<Rightarrow>
                (case member data (js ''sql'') of
                   Inl e \<Rightarrow> Inl e
                 | Inr s \<Rightarrow>
                     (case member data (js ''explanation'') of
                        Inl e \<Rightarrow> Inl e
                      | Inr x \<Rightarrow>
                          Inr \<lparr>result_sql = nullish s (JStr []),
                               result_explanation = nullish x (JStr [])\<rparr>))))"

text \<open>
  \<open>await fetch(...)\<close> and the rest: \<open>None\<close> when the promise never settles, the rejection
  passed on when it is rejected.
\<close>

definition settle :: "fetch_outcome \<Rightarrow> (js_error + generated) option" where
  "settle out =
     (case out of
        Pending \<Rightarrow> None
      | Rejected e \<Rightarrow> Some (Inl e)
      | Fulfilled res \<Rightarrow> Some (read_response res))"

text \<open>
  The whole call, against a network that answers each request with an outcome: the
  requests it issues, in order, and how its promise settles (\<open>None\<close>: never).
\<close>

definition callGenerateSqlAPI ::
  "(request \<Rightarrow> fetch_outcome) \<Rightarrow> jsstring \<Rightarrow> jsstring option
     \<Rightarrow> request list \<times> (js_error + generated) option" where
  "callGenerateSqlAPI fetch question modelId =
     (let req = api_request question modelId in ([req], settle (fetch req)))"

definition callGenerateSqlAPI_boxed ::
  "(request \<Rightarrow> fetch_outcome) \<Rightarrow> jsstring
     \<Rightarrow> request list \<times> (js_error + generated) option" where
  "callGenerateSqlAPI_boxed fetch question =
     (let req = api_request_boxed question in ([req], settle (fetch req)))"

section \<open>The conversation store\<close>

datatype role = User | Assistant

text \<open>
  A message. The fields \<open>sql\<close>, \<open>explanation\<close> and \<open>error\<close> are optional: \<open>None\<close> is a
  message object without the property. \<open>createdAt\<close> is \<open>Date.now()\<close>, in milliseconds.
\<close>

record message =
  msg_id :: jsstring
  role :: role
  msg_text :: jsstring
  sql :: "jsval option"
  explanation :: "jsval option"
  error :: "jsval option"
  createdAt :: int

text \<open>
  The component's state that the handlers read and write (\<open>sidebarOpen\<close> and
  \<open>showScrollBtn\<close> belong to the view only). A handler is a closure of the render that
  created it: what it reads of the state is the state of that render, while the updates
  it makes apply to the current state. What \<open>crypto.randomUUID()\<close> and \<open>Date.now()\<close>
  return is given to it.
\<close>

record state =
  messages :: "message list"
  input :: jsstring
  loading :: bool
  model :: jsstring

definition MODELS :: "(jsstring \<times> jsstring) list" where
  "MODELS = [(js ''keyword'', js ''Basic''), (js ''cluster'', js ''Premium'')]"

definition seed :: "int \<Rightarrow> message" where
  "seed now =
     \<lparr>msg_id = js ''seed'', role = Assistant,
      msg_text = js ''Hi! Ask me a data question. I'll propose a MySQL query and explain it.'',
      sql = None,
      explanation = Some (JStr (js (''Example: 'Total production by provider for September 2025' ''
        @ ''or 'New patients scheduled on 2025-10-13'.''))),
      error = None, createdAt = now\<rparr>"

definition initial :: "int \<Rightarrow> state" where
  "initial now =
     \<lparr>messages = [seed now], input = [], loading = False, model = fst (hd MODELS)\<rparr>"

text \<open>The three messages \<open>handleAsk\<close> builds.\<close>

definition user_message :: "jsstring \<Rightarrow> jsstring \<Rightarrow> int \<Rightarrow> message" where
  "user_message uuid question now =
     \<lparr>msg_id = uuid, role = User, msg_text = question, sql = None, explanation = None,
      error = None, createdAt = now\<rparr>"

definition answer_message :: "jsstring \<Rightarrow> jsstring \<Rightarrow> generated \<Rightarrow> int \<Rightarrow> message" where
  "answer_message uuid mdl r now =
     \<lparr>msg_id = uuid, role = Assistant,
      msg_text = js ''Here is a suggested SQL query using '' @ mdl @ js ''.'',
      sql = Some (result_sql r), explanation = Some (result_explanation r),
      error = None, createdAt = now\<rparr>"

text \<open>\<open>String(err?.message || err)\<close>, for a caught error object.\<close>

definition error_text :: "js_error \<Rightarrow> jsstring" where
  "error_text err = (if err_message err \<noteq> [] then err_message err else error_toString err)"

definition error_message :: "jsstring \<Rightarrow> js_error \<Rightarrow> int \<Rightarrow> message" where
  "error_message uuid err now =
     \<lparr>msg_id = uuid, role = Assistant,
      msg_text = js ''Sorry, I couldn't generate a query.'',
      sql = None, explanation = Some (JStr (error_text err)),
      error = Some (JStr (js ''true'')), createdAt = now\<rparr>"

text \<open>
  \<open>handleAsk\<close> up to its \<open>await\<close>, as the handler of the render with state \<open>r\<close>, run
  when the current state is \<open>s\<close>. It reads \<open>input\<close>, \<open>loading\<close> and \<open>model\<close> of its
  render; \<open>setMessages\<close> appends to the current messages, \<open>setInput\<close> and \<open>setLoading\<close>
  overwrite. The result is the new state, and the call it makes, if any: the question
  and the model of its render, which the rest of the handler keeps.
\<close>

definition handleAsk_submit ::
  "jsstring \<Rightarrow> int \<Rightarrow> state \<Rightarrow> state \<Rightarrow> state \<times> (jsstring \<times> jsstring) option" where
  "handleAsk_submit uuid now r s =
     (let question = trim (input r) in
      if question = [] \<or> loading r then (s, None)
      else (s\<lparr>messages := messages s @ [user_message uuid question now],
               input := [], loading := True\<rparr>,
            Some (question, model r)))"

text \<open>
  \<open>handleAsk\<close> after its \<open>await\<close>, on the state of that moment: the \<open>try\<close> branch when the
  call returned, the \<open>catch\<close> branch when it threw, then \<open>finally\<close>.
\<close>

definition handleAsk_resume ::
  "jsstring \<Rightarrow> int \<Rightarrow> jsstring \<Rightarrow> js_error + generated \<Rightarrow> state \<Rightarrow> state" where
  "handleAsk_resume uuid now mdl r s =
     (let msg = (case r of
                   Inr res \<Rightarrow> answer_message uuid mdl res now
                 | Inl err \<Rightarrow> error_message uuid err now)
      in s\<lparr>messages := messages s @ [msg], loading := False\<rparr>)"

text \<open>
  One whole run of \<open>handleAsk\<close>, as the handler of a render of the current state \<open>s\<close> and
  with no other event in between: the state it leaves and the requests it issued. When
  the call never settles, the state stays the one of the \<open>await\<close>.
\<close>

definition handleAsk ::
  "(request \<Rightarrow> fetch_outcome) \<Rightarrow> jsstring \<times> int \<Rightarrow> jsstring \<times> int \<Rightarrow> state
     \<Rightarrow> state \<times> request list" where
  "handleAsk fetch e1 e2 s =
     (case handleAsk_submit (fst e1) (snd e1) s s of
        (s1, None) \<Rightarrow> (s1, [])
      | (s1, Some (question, mdl)) \<Rightarrow>
          (case callGenerateSqlAPI fetch question (Some mdl) of
             (reqs, None) \<Rightarrow> (s1, reqs)
           | (reqs, Some r) \<Rightarrow> (handleAsk_resume (fst e2) (snd e2) mdl r s1, reqs)))"

definition handleNewChat :: "int \<Rightarrow> state \<Rightarrow> state" where
  "handleNewChat now s = s\<lparr>messages := [seed now], input := []\<rparr>"

text \<open>
  The component as a transition system. The system keeps three things: the current state
  \<open>ui\<close>, to which every update applies; the state \<open>rendered\<close> of the last render, which is
  what the handlers on the page read; and the calls in flight. The events: a submission, the
  settling of one of the calls in flight (given by its position), a new chat, typing into
  the input, choosing a model, and a render, which brings \<open>rendered\<close> up to the current
  state. Submissions that follow one another with no render in between are run by
  handlers of the same render.
\<close>

datatype event =
    Ask jsstring int
  | Reply nat jsstring int fetch_outcome
  | NewChat int
  | Typed jsstring
  | Selected jsstring
  | Render

record app =
  ui :: state
  rendered :: state
  inflight :: "(jsstring \<times> jsstring) list"

fun step :: "event \<Rightarrow> app \<Rightarrow> app" where
  "step (Ask uuid now) a =
     (case handleAsk_submit uuid now (rendered a) (ui a) of
        (s', None) \<Rightarrow> a\<lparr>ui := s'\<rparr>
      | (s', Some call) \<Rightarrow> a\<lparr>ui := s', inflight := inflight a @ [call]\<rparr>)"
| "step (Reply i uuid now out) a =
     (if i < length (inflight a) then
        (case settle out of
           None \<Rightarrow> a
         | Some r \<Rightarrow> a\<lparr>ui := handleAsk_resume uuid now (snd (inflight a ! i)) r (ui a),
                         inflight := take i (inflight a) @ drop (Suc i) (inflight a)\<rparr>)
      else a)"
| "step (NewChat now) a = a\<lparr>ui := handleNewChat now (ui a)\<rparr>"
| "step (Typed v) a = a\<lparr>ui := (ui a)\<lparr>input := v\<rparr>\<rparr>"
| "step (Selected v) a = a\<lparr>ui := (ui a)\<lparr>model := v\<rparr>\<rparr>"
| "step Render a = a\<lparr>rendered := ui a\<rparr>"

definition run :: "event list \<Rightarrow> app \<Rightarrow> app" where
  "run evs a = foldl (\<lambda>a e. step e a) a evs"

definition boot :: "int \<Rightarrow> app" where
  "boot now = \<lparr>ui = initial now, rendered = initial now, inflight = []\<rparr>"

text \<open>A network that answers every request with one and the same outcome.\<close>

definition replying :: "fetch_outcome \<Rightarrow> request \<Rightarrow> fetch_outcome" where
  "replying out req = out"


text \<open>
  The runs in which a render follows every submission before the next event: each
  submission but the last event of the run is followed at once by a render.
\<close>

fun is_render :: "event \<Rightarrow> bool" where
  "is_render Render = True"
| "is_render e = False"

fun rerendered :: "event list \<Rightarrow> bool" where
  "rerendered [] = True"
| "rerendered [Ask uuid now] = True"
| "rerendered (Ask uuid now # e # evs) = (is_render e \<and> rerendered evs)"
| "rerendered (e # evs) = rerendered evs"

text \<open>The events that reset the conversation.\<close>

fun is_reset :: "event \<Rightarrow> bool" where
  "is_reset (NewChat now) = True"
| "is_reset e = False"

text \<open>
  Two properties of a state of the system: at most one call is in flight, and \<open>loading\<close>
  is true exactly while one is; and the page shows \<open>loading\<close> when it is set, that is,
  the last render is not older than the last accepted submission.
\<close>

definition single_flight :: "app \<Rightarrow> bool" where
  "single_flight a = (length (inflight a) \<le> 1 \<and> loading (ui a) = (inflight a \<noteq> []))"

definition shows_loading :: "app \<Rightarrow> bool" where
  "shows_loading a = (loading (ui a) \<longrightarrow> loading (rendered a))"

text \<open>
  The two properties claimed of what the client returns, in the words of the
  specification: both fields are strings; and the value expected for a field, namely the
  member of that name of a body that is an object, and the empty string when the member
  is missing or null or the body is no object.
\<close>

definition returns_strings :: "(js_error + generated) option \<Rightarrow> bool" where
  "returns_strings r =
     (case r of
        Some (Inr g) \<Rightarrow> is_string (result_sql g) \<and> is_string (result_explanation g)
      | _ \<Rightarrow> False)"

definition spec_field :: "jsval \<Rightarrow> jsstring \<Rightarrow> jsval" where
  "spec_field data k =
     (case data of
        JObj kvs \<Rightarrow>
          (case map_of (rev kvs) k of
             None \<Rightarrow> JStr []
           | Some v \<Rightarrow> if v = JNull \<or> v = JUndefined then JStr [] else v)
      | _ \<Rightarrow> JStr [])"

section \<open>Basic facts\<close>

lemma handleAsk_submit_rejected:
  "trim (input r) = [] \<or> loading r \<Longrightarrow> handleAsk_submit uuid now r s = (s, None)"
  by (auto simp: handleAsk_submit_def)

lemma handleAsk_submit_accepted:
  "trim (input r) \<noteq> [] \<Longrightarrow> \<not> loading r \<Longrightarrow>
   handleAsk_submit uuid now r s =
     (s\<lparr>messages := messages s @ [user_message uuid (trim (input r)) now],
        input := [], loading := True\<rparr>, Some (trim (input r), model r))"
  by (simp add: handleAsk_submit_def Let_def)

lemma run_Nil [simp]: "run [] a = a"
  by (simp add: run_def)

lemma run_Cons [simp]: "run (e # evs) a = run evs (step e a)"
  by (simp add: run_def)

text \<open>
  A submission keeps at most one call in flight when the page shows \<open>loading\<close>; the
  render after it makes the page show \<open>loading\<close> again. Every other event keeps both.
\<close>

lemma single_flight_Ask:
  assumes "single_flight a" "shows_loading a"
  shows "single_flight (step (Ask uuid now) a)"
proof (cases "trim (input (rendered a)) = [] \<or> loading (rendered a)")
  case True
  then show ?thesis using assms(1)
    by (simp add: handleAsk_submit_rejected single_flight_def)
next
  case False
  then have "\<not> loading (ui a)"
    using assms(2) by (auto simp: shows_loading_def)
  then show ?thesis using False assms(1)
    by (simp add: handleAsk_submit_accepted single_flight_def)
qed

lemma single_flight_any:
  assumes "single_flight a" "shows_loading a"
  shows "single_flight (step e a)"
proof (cases e)
  case (Ask uuid now)
  show ?thesis unfolding Ask by (rule single_flight_Ask [OF assms])
next
  case (Reply i uuid now out)
  then show ?thesis using assms(1)
    by (auto simp: single_flight_def handleAsk_resume_def split: option.splits)
qed (use assms(1) in \<open>simp_all add: single_flight_def handleNewChat_def\<close>)

lemma shows_loading_Render: "shows_loading (step Render a)"
  by (simp add: shows_loading_def)

lemma single_flight_Render: "single_flight (step Render a) = single_flight a"
  by (simp add: single_flight_def)

lemma shows_loading_other:
  "shows_loading a \<Longrightarrow> shows_loading (step (Reply i uuid now out) a)"
  "shows_loading a \<Longrightarrow> shows_loading (step (NewChat now) a)"
  "shows_loading a \<Longrightarrow> shows_loading (step (Typed v) a)"
  "shows_loading a \<Longrightarrow> shows_loading (step (Selected v) a)"
  by (auto simp: shows_loading_def handleAsk_resume_def handleNewChat_def
      split: option.splits)

lemma single_flight_run:
  "rerendered evs \<Longrightarrow> single_flight a \<Longrightarrow> shows_loading a \<Longrightarrow> single_flight (run evs a)"
proof (induction evs arbitrary: a rule: rerendered.induct)
  case 1
  then show ?case by simp
next
  case (2 uuid now)
  then show ?case by (simp add: single_flight_Ask del: step.simps)
next
  case (3 uuid now e evs)
  then have e: "e = Render"
    by (cases e) simp_all
  have "single_flight (step Render (step (Ask uuid now) a))"
    using 3 by (simp add: single_flight_Render single_flight_Ask del: step.simps)
  moreover have "shows_loading (step Render (step (Ask uuid now) a))"
    by (rule shows_loading_Render)
  ultimately show ?case using 3 e
    by (simp del: step.simps)
qed (simp_all add: single_flight_any shows_loading_other shows_loading_Render
      del: step.simps)

lemma single_flight_boot: "single_flight (boot now) \<and> shows_loading (boot now)"
  by (simp add: single_flight_def shows_loading_def boot_def initial_def)

lemma step_prefix: "\<not> is_reset e \<Longrightarrow> prefix (messages (ui a)) (messages (ui (step e a)))"
  by (cases e)
     (auto simp: handleAsk_submit_def handleAsk_resume_def Let_def
           split: list.splits option.splits)

lemma run_prefix:
  "list_all (\<lambda>e. \<not> is_reset e) evs \<Longrightarrow>
   prefix (messages (ui a)) (messages (ui (run evs a)))"
proof (induction evs arbitrary: a)
  case Nil
  then show ?case by simp
next
  case (Cons e evs)
  have "prefix (messages (ui a)) (messages (ui (step e a)))"
    using Cons.prems by (simp add: step_prefix)
  moreover have "prefix (messages (ui (step e a))) (messages (ui (run evs (step e a))))"
    using Cons.prems by (intro Cons.IH) simp
  ultimately show ?case by (auto intro: prefix_order.trans simp del: step.simps)
qed

lemma js_Cons_nonempty [simp]: "js (c # cs) \<noteq> []"
  by (simp add: js_def)

lemma handleAsk_prefix: "prefix (messages s) (messages (fst (handleAsk fetch e1 e2 s)))"
  by (auto simp: handleAsk_def handleAsk_submit_def handleAsk_resume_def Let_def
        callGenerateSqlAPI_def split: option.splits prod.splits)


text \<open>A run of \<open>handleAsk\<close> whose submission is accepted, by how the call settles.\<close>

lemma handleAsk_accepted:
  assumes "trim (input s) \<noteq> []" "\<not> loading s"
  shows "handleAsk fetch e1 e2 s =
    (case snd (callGenerateSqlAPI fetch (trim (input s)) (Some (model s))) of
       None \<Rightarrow> s\<lparr>messages := messages s @ [user_message (fst e1) (trim (input s)) (snd e1)],
                  input := [], loading := True\<rparr>
     | Some r \<Rightarrow> handleAsk_resume (fst e2) (snd e2) (model s) r
         (s\<lparr>messages := messages s @ [user_message (fst e1) (trim (input s)) (snd e1)],
            input := [], loading := True\<rparr>),
     [api_request (trim (input s)) (Some (model s))])"
  using assms
  by (simp add: handleAsk_def handleAsk_submit_accepted callGenerateSqlAPI_def Let_def
        split: option.splits)

lemma handleAsk_returned:
  assumes "trim (input s) \<noteq> []" "\<not> loading s"
    and "snd (callGenerateSqlAPI fetch (trim (input s)) (Some (model s))) = Some (Inr g)"
  shows "fst (handleAsk fetch (u1, t1) (u2, t2) s) =
     s\<lparr>messages := messages s @ [user_message u1 (trim (input s)) t1,
                                   answer_message u2 (model s) g t2],
       input := [], loading := False\<rparr>"
  using assms by (simp add: handleAsk_accepted handleAsk_resume_def)

lemma handleAsk_threw:
  assumes "trim (input s) \<noteq> []" "\<not> loading s"
    and "snd (callGenerateSqlAPI fetch (trim (input s)) (Some (model s))) = Some (Inl err)"
  shows "fst (handleAsk fetch (u1, t1) (u2, t2) s) =
     s\<lparr>messages := messages s @ [user_message u1 (trim (input s)) t1,
                                   error_message u2 err t2],
       input := [], loading := False\<rparr>"
  using assms by (simp add: handleAsk_accepted handleAsk_resume_def)


text \<open>Lookups in \<open>ENDPOINTS\<close>, and the URL a request goes to.\<close>

lemma get_prop_ENDPOINTS_keyword:
  "get_prop ENDPOINTS (js ''keyword'') = JStr (js ''https://generate-sql.local/generate_sql'')"
  by (simp add: get_prop_def ENDPOINTS_def js_def)


lemma get_prop_ENDPOINTS_other:
  assumes "k \<noteq> js ''keyword''" "k \<noteq> js ''cluster''" "k \<notin> fst ` set Object_prototype"
  shows "get_prop ENDPOINTS k = JUndefined"
proof -
  have "map_of Object_prototype k = None"
    using assms(3) by (simp add: map_of_eq_None_iff)
  moreover have "map_of (rev ENDPOINTS) k = None"
    using assms(1,2) by (simp add: ENDPOINTS_def)
  ultimately show ?thesis by (simp add: get_prop_def)
qed

lemma url_of_key:
  "url (api_request question modelId)
     = js_or (get_prop ENDPOINTS (property_key modelId))
         (JStr (js ''https://generate-sql.local/generate_sql''))"
  by (simp add: api_request_def get_prop_ENDPOINTS_keyword)


lemma url_keyword:
  "url (api_request question (Some (js ''keyword'')))
     = JStr (js ''https://generate-sql.local/generate_sql'')"
  by (simp add: url_of_key property_key_def get_prop_ENDPOINTS_keyword js_or_def)

lemma url_other:
  assumes "m \<noteq> js ''cluster''" "m \<notin> fst ` set Object_prototype"
  shows "url (api_request question (Some m)) = JStr (js ''https://generate-sql.local/generate_sql'')"
proof (cases "m = js ''keyword''")
  case True
  then show ?thesis by (simp add: url_keyword)
next
  case False
  then show ?thesis using assms
    by (simp add: url_of_key property_key_def get_prop_ENDPOINTS_other js_or_def)
qed

lemma url_omitted:
  "url (api_request question None) = JStr (js ''https://generate-sql.local/generate_sql'')"
proof -
  have "js ''undefined'' \<notin> fst ` set Object_prototype"
    by (simp add: Object_prototype_def js_def)
  moreover have "js ''undefined'' \<noteq> js ''keyword''" "js ''undefined'' \<noteq> js ''cluster''"
    by (simp_all add: js_def)
  ultimately show ?thesis
    by (simp add: url_of_key property_key_def get_prop_ENDPOINTS_other js_or_def)
qed

lemma url_empty:
  "url (api_request question (Some [])) = JStr (js ''https://generate-sql.local/generate_sql'')"
proof -
  have "[] \<notin> fst ` set Object_prototype"
    by (simp add: Object_prototype_def js_def)
  moreover have "[] \<noteq> js ''cluster''"
    by (simp add: js_def)
  ultimately show ?thesis by (rule url_other [rotated])
qed

lemma falsy_arg: "(\<not> truthy (arg_value modelId)) = (modelId = None \<or> modelId = Some [])"
  by (cases modelId) (simp_all add: arg_value_def)

text \<open>The fields of the payload.\<close>

lemma payload_fixed:
  "member (body (api_request question modelId)) (js ''schema_path'')
     = Inr (JStr (js ''schema_tree.json''))"
  "member (body (api_request question modelId)) (js ''keywords_path'')
     = Inr (JStr (js ''keyword_to_tables.json''))"
  "member (body (api_request question modelId)) (js ''dialect'') = Inr (JStr (js ''mysql''))"
  "member (body (api_request question modelId)) (js ''question'') = Inr (JStr question)"
  by (simp_all add: api_request_def get_prop_def js_def)

lemma payload_model:
  "member (body (api_request question modelId)) (js ''model'')
     = Inr (js_or (arg_value modelId) (JStr (js ''gpt-5'')))"
  by (simp add: api_request_def get_prop_def js_def)

lemma payload_fixed_boxed:
  "member (body (api_request_boxed question)) (js ''schema_path'')
     = Inr (JStr (js ''schema_tree.json''))"
  "member (body (api_request_boxed question)) (js ''keywords_path'')
     = Inr (JStr (js ''keyword_to_tables.json''))"
  "member (body (api_request_boxed question)) (js ''dialect'') = Inr (JStr (js ''mysql''))"
  "member (body (api_request_boxed question)) (js ''question'') = Inr (JStr question)"
  "member (body (api_request_boxed question)) (js ''model'') = Inr (JStr (js ''gpt-5''))"
  by (simp_all add: api_request_boxed_def get_prop_def js_def)

text \<open>Reading a field of a parsed body that is neither \<open>null\<close> nor \<open>undefined\<close>.\<close>

lemma member_spec_field:
  assumes "data \<noteq> JNull" "data \<noteq> JUndefined" "k \<notin> fst ` set Object_prototype"
  shows "\<exists>v. member data k = Inr v \<and> nullish v (JStr []) = spec_field data k"
proof (cases data)
  case (JObj kvs)
  have "map_of Object_prototype k = None"
    using assms(3) by (simp add: map_of_eq_None_iff)
  then show ?thesis using JObj
    by (auto simp: get_prop_def spec_field_def nullish_def split: option.splits)
qed (use assms in \<open>simp_all add: spec_field_def nullish_def\<close>)

lemma sql_not_inherited: "js ''sql'' \<notin> fst ` set Object_prototype"
  by (simp add: Object_prototype_def js_def)

lemma explanation_not_inherited: "js ''explanation'' \<notin> fst ` set Object_prototype"
  by (simp add: Object_prototype_def js_def)

lemma read_response_ok:
  assumes "ok res" "json_body res = Inr data" "data \<noteq> JNull" "data \<noteq> JUndefined"
  shows "read_response res =
     Inr \<lparr>result_sql = spec_field data (js ''sql''),
          result_explanation = spec_field data (js ''explanation'')\<rparr>"
proof -
  obtain s where s: "member data (js ''sql'') = Inr s"
      "nullish s (JStr []) = spec_field data (js ''sql'')"
    using member_spec_field [OF assms(3,4) sql_not_inherited] by blast
  obtain x where x: "member data (js ''explanation'') = Inr x"
      "nullish x (JStr []) = spec_field data (js ''explanation'')"
    using member_spec_field [OF assms(3,4) explanation_not_inherited] by blast
  show ?thesis using assms(1,2) s x by (simp add: read_response_def)
qed

section \<open>Reset\<close>

text \<open>
  C7. Whatever the state before, \<open>handleNewChat\<close> leaves a conversation of exactly one
  message, the seed greeting: its id, role, text and explanation (and absent \<open>sql\<close> and
  \<open>error\<close>) are those of the message the component starts with; only \<open>createdAt\<close>, the
  time of the reset, differs. The same holds of the reset as an event of the system.
\<close>

theorem handleNewChat_single_seed:
  "messages (handleNewChat now s) = [seed now]
   \<and> length (messages (handleNewChat now s)) = 1
   \<and> messages (ui (step (NewChat now) a)) = [seed now]
   \<and> messages (initial t0) = [seed t0]
   \<and> seed now = (seed t0)\<lparr>createdAt := now\<rparr>
   \<and> msg_id (seed now) = js ''seed''
   \<and> role (seed now) = Assistant
   \<and> msg_text (seed now) =
       js ''Hi! Ask me a data question. I'll propose a MySQL query and explain it.''"
  by (simp add: handleNewChat_def initial_def seed_def)

section \<open>Submission\<close>

text \<open>
  C4, as the code has it. \<open>handleAsk\<close> does nothing when, in the render it is the handler
  of, the input is empty after trimming or \<open>loading\<close> is true: the whole current state
  (messages, \<open>loading\<close>, input text) is unchanged, no call is made and no request is
  issued, by the handler as by the submission event of the system. Hence, in every run
  from the start in which a render follows each submission before the next event, at
  most one call is in flight, and \<open>loading\<close> is true exactly while one is.
\<close>

theorem handleAsk_rejected_noop:
  "(trim (input r) = [] \<or> loading r \<longrightarrow>
      handleAsk_submit uuid now r s = (s, None)
      \<and> handleAsk fetch e1 e2 r = (r, [])
      \<and> step (Ask uuid now) \<lparr>ui = s, rendered = r, inflight = calls\<rparr>
          = \<lparr>ui = s, rendered = r, inflight = calls\<rparr>)
   \<and> (rerendered evs \<longrightarrow>
        length (inflight (run evs (boot t0))) \<le> 1
        \<and> loading (ui (run evs (boot t0))) = (inflight (run evs (boot t0)) \<noteq> []))"
proof -
  have "single_flight (run evs (boot t0))" if "rerendered evs"
    using that single_flight_boot [of t0] by (simp add: single_flight_run)
  then show ?thesis
    by (auto simp: single_flight_def handleAsk_def handleAsk_submit_rejected)
qed

text \<open>
  At an input of white space only (a space, a tab, a line feed and U+3000), at a state
  that is loading, and along a run with two submissions, each on its own render: the
  second is rejected.
\<close>

theorem handleAsk_rejected_noop_witness:
  "trim (input ((initial 0)\<lparr>input := [0x20, 0x09, 0x0A, 0x3000]\<rparr>)) = []
   \<and> handleAsk_submit (js ''u'') 1 ((initial 0)\<lparr>input := [0x20, 0x09, 0x0A, 0x3000]\<rparr>)
         ((initial 0)\<lparr>input := [0x20, 0x09, 0x0A, 0x3000]\<rparr>)
       = ((initial 0)\<lparr>input := [0x20, 0x09, 0x0A, 0x3000]\<rparr>, None)
   \<and> loading ((initial 0)\<lparr>input := js ''again'', loading := True\<rparr>)
   \<and> handleAsk (replying Pending) (js ''u'', 1) (js ''v'', 2)
         ((initial 0)\<lparr>input := js ''again'', loading := True\<rparr>)
       = ((initial 0)\<lparr>input := js ''again'', loading := True\<rparr>, [])
   \<and> rerendered [Typed (js ''a''), Render, Ask (js ''u'') 1, Render, Typed (js ''b''), Render,
         Ask (js ''v'') 2]
   \<and> length (inflight (run [Typed (js ''a''), Render, Ask (js ''u'') 1, Render,
         Typed (js ''b''), Render, Ask (js ''v'') 2] (boot 0))) \<le> 1
   \<and> inflight (run [Typed (js ''a''), Render, Ask (js ''u'') 1, Render,
         Typed (js ''b''), Render, Ask (js ''v'') 2] (boot 0)) \<noteq> []"
  using handleAsk_rejected_noop [of "(initial 0)\<lparr>input := [0x20, 0x09, 0x0A, 0x3000]\<rparr>"
          "js ''u''" 1 "(initial 0)\<lparr>input := [0x20, 0x09, 0x0A, 0x3000]\<rparr>"
          "replying Pending" "(js ''u'', 1)" "(js ''v'', 2)" "[]"
          "[Typed (js ''a''), Render, Ask (js ''u'') 1, Render, Typed (js ''b''), Render,
            Ask (js ''v'') 2]" 0]
        handleAsk_rejected_noop [of "(initial 0)\<lparr>input := js ''again'', loading := True\<rparr>"
          "js ''u''" 1 "(initial 0)\<lparr>input := js ''again'', loading := True\<rparr>"
          "replying Pending" "(js ''u'', 1)" "(js ''v'', 2)" "[]" "[]" 0]
  by (simp add: trim_def is_white_space_def boot_def initial_def handleAsk_submit_def
        js_def Let_def)

text \<open>
  C4 as stated fails. Two submissions run by the handlers of one render (no render
  between them) both read \<open>loading\<close> as false there, both pass the guard and both make
  their call: two calls are in flight, and two user messages have been appended.
\<close>

theorem two_submissions_of_one_render:
  "length (inflight (run [Typed (js ''a''), Render, Ask (js ''u'') 1, Ask (js ''v'') 2]
      (boot 0))) = 2
   \<and> map role (messages (ui (run [Typed (js ''a''), Render, Ask (js ''u'') 1, Ask (js ''v'') 2]
      (boot 0)))) = [Assistant, User, User]
   \<and> loading (rendered (run [Typed (js ''a''), Render, Ask (js ''u'') 1] (boot 0))) = False
   \<and> loading (ui (run [Typed (js ''a''), Render, Ask (js ''u'') 1] (boot 0))) = True"
  by (simp add: boot_def initial_def seed_def user_message_def handleAsk_submit_def
        trim_def is_white_space_def js_def Let_def)



text \<open>
  C6. When the call returns, the assistant message that \<open>handleAsk\<close> appends carries the
  two fields of what the call returned, unchanged, and has no \<open>error\<close> property: in a
  whole run, and for the continuation of the handler on any state.
\<close>

theorem answer_carries_response_fields:
  assumes "trim (input s) \<noteq> []" "\<not> loading s"
    and "snd (callGenerateSqlAPI fetch (trim (input s)) (Some (model s))) = Some (Inr g)"
  shows "messages (fst (handleAsk fetch (u1, t1) (u2, t2) s))
           = messages s @ [user_message u1 (trim (input s)) t1, answer_message u2 (model s) g t2]
    \<and> role (last (messages (fst (handleAsk fetch (u1, t1) (u2, t2) s)))) = Assistant
    \<and> sql (last (messages (fst (handleAsk fetch (u1, t1) (u2, t2) s)))) = Some (result_sql g)
    \<and> explanation (last (messages (fst (handleAsk fetch (u1, t1) (u2, t2) s))))
         = Some (result_explanation g)
    \<and> error (last (messages (fst (handleAsk fetch (u1, t1) (u2, t2) s)))) = None
    \<and> messages (handleAsk_resume u2 t2 mdl (Inr g) s') = messages s' @ [answer_message u2 mdl g t2]
    \<and> sql (answer_message u2 mdl g t2) = Some (result_sql g)
    \<and> explanation (answer_message u2 mdl g t2) = Some (result_explanation g)
    \<and> error (answer_message u2 mdl g t2) = None"
  using handleAsk_returned [OF assms]
  by (simp add: answer_message_def handleAsk_resume_def)

text \<open>
  The response of status 200 with the body \<open>{sql: "SELECT 1", explanation: "because"}\<close>.
\<close>

theorem answer_carries_response_fields_witness:
  \<open>sql (last (messages (fst (handleAsk
      (replying (Fulfilled \<lparr>status = 200,
         text_body = js ''{"sql": "SELECT 1", "explanation": "because"}'',
         json_body = Inr (JObj [(js ''sql'', JStr (js ''SELECT 1'')),
                                (js ''explanation'', JStr (js ''because''))])\<rparr>))
      (js ''id-1'', 1) (js ''id-2'', 2) ((initial 0)\<lparr>input := js ''how many?''\<rparr>)))))
     = Some (JStr (js ''SELECT 1''))
   \<and> explanation (last (messages (fst (handleAsk
      (replying (Fulfilled \<lparr>status = 200,
         text_body = js ''{"sql": "SELECT 1", "explanation": "because"}'',
         json_body = Inr (JObj [(js ''sql'', JStr (js ''SELECT 1'')),
                                (js ''explanation'', JStr (js ''because''))])\<rparr>))
      (js ''id-1'', 1) (js ''id-2'', 2) ((initial 0)\<lparr>input := js ''how many?''\<rparr>)))))
     = Some (JStr (js ''because''))
   \<and> error (last (messages (fst (handleAsk
      (replying (Fulfilled \<lparr>status = 200,
         text_body = js ''{"sql": "SELECT 1", "explanation": "because"}'',
         json_body = Inr (JObj [(js ''sql'', JStr (js ''SELECT 1'')),
                                (js ''explanation'', JStr (js ''because''))])\<rparr>))
      (js ''id-1'', 1) (js ''id-2'', 2) ((initial 0)\<lparr>input := js ''how many?''\<rparr>)))))
     = None\<close>
proof -
  let ?s = \<open>(initial 0)\<lparr>input := js ''how many?''\<rparr>\<close>
  let ?g = \<open>\<lparr>result_sql = JStr (js ''SELECT 1''), result_explanation = JStr (js ''because'')\<rparr>\<close>
  let ?fetch = \<open>replying (Fulfilled \<lparr>status = 200,
         text_body = js ''{"sql": "SELECT 1", "explanation": "because"}'',
         json_body = Inr (JObj [(js ''sql'', JStr (js ''SELECT 1'')),
                                (js ''explanation'', JStr (js ''because''))])\<rparr>)\<close>
  have t: "trim (input ?s) \<noteq> []"
    by (simp add: trim_def is_white_space_def js_def)
  have l: "\<not> loading ?s"
    by (simp add: initial_def)
  have c: "snd (callGenerateSqlAPI ?fetch (trim (input ?s)) (Some (model ?s))) = Some (Inr ?g)"
    by (simp add: callGenerateSqlAPI_def Let_def replying_def settle_def read_response_def
          ok_def get_prop_def nullish_def js_def)
  show ?thesis
    using answer_carries_response_fields [OF t l c, of "js ''id-1''" 1 "js ''id-2''" 2]
    by simp
qed

text \<open>
  C1, as the code has it. When the call of a submission fails, the assistant message
  appended has an \<open>error\<close> property that holds a truthy value (the view shows the error
  panel), and its explanation is \<open>String(err?.message || err)\<close>: the message of the error
  when that is not empty, which for a response of a status outside 200 to 299 is the text
  of its body and for a failed request the message of the network error; and
  \<open>String(err)\<close> otherwise, which for such a response with an empty body is \<open>Error\<close>.
\<close>

theorem failed_call_error_message:
  assumes "trim (input s) \<noteq> []" "\<not> loading s"
    and "snd (callGenerateSqlAPI fetch (trim (input s)) (Some (model s))) = Some (Inl err)"
  shows "messages (fst (handleAsk fetch (u1, t1) (u2, t2) s))
           = messages s @ [user_message u1 (trim (input s)) t1, error_message u2 err t2]
    \<and> role (last (messages (fst (handleAsk fetch (u1, t1) (u2, t2) s)))) = Assistant
    \<and> (case error (last (messages (fst (handleAsk fetch (u1, t1) (u2, t2) s)))) of
          None \<Rightarrow> False | Some v \<Rightarrow> truthy v)
    \<and> explanation (last (messages (fst (handleAsk fetch (u1, t1) (u2, t2) s))))
         = Some (JStr (if err_message err \<noteq> [] then err_message err else error_toString err))
    \<and> (fetch (api_request (trim (input s)) (Some (model s))) = Fulfilled res \<and> \<not> ok res \<longrightarrow>
         explanation (last (messages (fst (handleAsk fetch (u1, t1) (u2, t2) s))))
           = Some (JStr (if text_body res \<noteq> [] then text_body res else js ''Error'')))"
proof -
  have "err = JsError (js ''Error'') (text_body res)"
    if "fetch (api_request (trim (input s)) (Some (model s))) = Fulfilled res" "\<not> ok res"
    using that assms(3)
    by (simp add: callGenerateSqlAPI_def Let_def settle_def read_response_def)
  then show ?thesis
    using handleAsk_threw [OF assms]
    by (auto simp: error_message_def error_text_def error_toString_def)
qed

text \<open>The response of status 500 with the body \<open>boom\<close>.\<close>

theorem failed_call_error_message_witness:
  \<open>explanation (last (messages (fst (handleAsk
      (replying (Fulfilled \<lparr>status = 500, text_body = js ''boom'',
         json_body = Inl (JsError (js ''SyntaxError'') (js ''Unexpected token''))\<rparr>))
      (js ''id-1'', 1) (js ''id-2'', 2) ((initial 0)\<lparr>input := js ''how many?''\<rparr>)))))
     = Some (JStr (js ''boom''))
   \<and> role (last (messages (fst (handleAsk
      (replying (Fulfilled \<lparr>status = 500, text_body = js ''boom'',
         json_body = Inl (JsError (js ''SyntaxError'') (js ''Unexpected token''))\<rparr>))
      (js ''id-1'', 1) (js ''id-2'', 2) ((initial 0)\<lparr>input := js ''how many?''\<rparr>)))))
     = Assistant\<close>
proof -
  let ?s = \<open>(initial 0)\<lparr>input := js ''how many?''\<rparr>\<close>
  let ?res = \<open>\<lparr>status = 500, text_body = js ''boom'',
         json_body = Inl (JsError (js ''SyntaxError'') (js ''Unexpected token''))\<rparr>\<close>
  have t: "trim (input ?s) \<noteq> []"
    by (simp add: trim_def is_white_space_def js_def)
  have l: "\<not> loading ?s"
    by (simp add: initial_def)
  have c: "snd (callGenerateSqlAPI (replying (Fulfilled ?res)) (trim (input ?s)) (Some (model ?s)))
      = Some (Inl (JsError (js ''Error'') (js ''boom'')))"
    by (simp add: callGenerateSqlAPI_def Let_def replying_def settle_def read_response_def ok_def)
  show ?thesis
    using failed_call_error_message [OF t l c, of "js ''id-1''" 1 "js ''id-2''" 2 ?res]
    by (simp add: error_message_def error_text_def)
qed

text \<open>
  C1 as stated fails. After the response of status 500 with the body \<open>boom\<close> the \<open>error\<close>
  property is the string \<open>"true"\<close>, which is not the boolean \<open>true\<close>; and after a response
  of status 500 with an empty body the explanation is \<open>Error\<close>, not the empty body text.
\<close>

theorem error_flag_is_not_boolean:
  \<open>error (last (messages (fst (handleAsk
      (replying (Fulfilled \<lparr>status = 500, text_body = js ''boom'',
         json_body = Inl (JsError (js ''SyntaxError'') (js ''Unexpected token''))\<rparr>))
      (js ''id-1'', 1) (js ''id-2'', 2) ((initial 0)\<lparr>input := js ''how many?''\<rparr>)))))
     = Some (JStr (js ''true''))
   \<and> JStr (js ''true'') \<noteq> JBool True
   \<and> explanation (last (messages (fst (handleAsk
      (replying (Fulfilled \<lparr>status = 500, text_body = [],
         json_body = Inl (JsError (js ''SyntaxError'') (js ''Unexpected end of JSON input''))\<rparr>))
      (js ''id-1'', 1) (js ''id-2'', 2) ((initial 0)\<lparr>input := js ''how many?''\<rparr>)))))
     = Some (JStr (js ''Error''))
   \<and> js ''Error'' \<noteq> []\<close>
  by (simp add: handleAsk_def handleAsk_submit_def handleAsk_resume_def callGenerateSqlAPI_def
        replying_def settle_def read_response_def ok_def error_message_def error_text_def
        error_toString_def initial_def trim_def is_white_space_def Let_def js_def)

text \<open>
  C9. No operation on the conversation but the reset changes or removes a message: under
  every event that is not a reset, and along every run without one, the messages before
  are a prefix of the messages after; the same holds of a whole run of \<open>handleAsk\<close> and
  of each of its two halves, the first as the handler of any render.
\<close>

theorem messages_append_only:
  "(\<not> is_reset e \<longrightarrow> prefix (messages (ui a)) (messages (ui (step e a))))
   \<and> (list_all (\<lambda>e. \<not> is_reset e) evs \<longrightarrow>
        prefix (messages (ui a)) (messages (ui (run evs a))))
   \<and> prefix (messages s) (messages (fst (handleAsk fetch e1 e2 s)))
   \<and> prefix (messages s) (messages (fst (handleAsk_submit uuid now rnd s)))
   \<and> prefix (messages s) (messages (handleAsk_resume uuid now mdl r s))"
  by (simp add: step_prefix run_prefix handleAsk_prefix)
     (simp add: handleAsk_submit_def handleAsk_resume_def Let_def)

text \<open>A question typed and submitted, and its request failing.\<close>

theorem messages_append_only_witness:
  "\<not> is_reset (Ask (js ''u'') 1)
   \<and> list_all (\<lambda>e. \<not> is_reset e)
        [Typed (js ''hi''), Render, Ask (js ''u'') 1,
         Reply 0 (js ''v'') 2 (Rejected (JsError (js ''TypeError'') (js ''Failed to fetch'')))]
   \<and> prefix (messages (ui (boot 0))) (messages (ui (step (Ask (js ''u'') 1) (boot 0))))
   \<and> prefix (messages (ui (boot 0)))
        (messages (ui (run [Typed (js ''hi''), Render, Ask (js ''u'') 1,
           Reply 0 (js ''v'') 2 (Rejected (JsError (js ''TypeError'') (js ''Failed to fetch'')))]
           (boot 0))))
   \<and> length (messages (ui (run [Typed (js ''hi''), Render, Ask (js ''u'') 1,
           Reply 0 (js ''v'') 2 (Rejected (JsError (js ''TypeError'') (js ''Failed to fetch'')))]
           (boot 0)))) = 3"
  using messages_append_only [of "Ask (js ''u'') 1" "boot 0"
     "[Typed (js ''hi''), Render, Ask (js ''u'') 1,
       Reply 0 (js ''v'') 2 (Rejected (JsError (js ''TypeError'') (js ''Failed to fetch'')))]"]
  by (simp add: boot_def initial_def handleAsk_submit_def handleAsk_resume_def
        settle_def trim_def is_white_space_def js_def Let_def)

section \<open>The client\<close>

text \<open>
  C2, as the code has it. For a response of a status from 200 to 299 whose body is JSON
  and not \<open>null\<close>, the call returns an object whose \<open>sql\<close> and \<open>explanation\<close> are: the
  member of that name of the body, unchanged and of whatever type, when the body is an
  object that has the member with a value other than \<open>null\<close>; and the empty string when
  the member is missing or \<open>null\<close>, or the body is an array, a string, a number or a
  boolean.
\<close>

theorem callGenerateSqlAPI_success:
  assumes "fetch (api_request question modelId) = Fulfilled res"
    and "200 \<le> status res" "status res \<le> 299"
    and "json_body res = Inr data" "data \<noteq> JNull" "data \<noteq> JUndefined"
  shows "snd (callGenerateSqlAPI fetch question modelId) =
     Some (Inr \<lparr>result_sql = spec_field data (js ''sql''),
                result_explanation = spec_field data (js ''explanation'')\<rparr>)"
  using assms
  by (simp add: callGenerateSqlAPI_def Let_def settle_def read_response_ok ok_def)

text \<open>The body \<open>{"sql": "SELECT 1", "explanation": null}\<close>.\<close>

theorem callGenerateSqlAPI_success_witness:
  \<open>snd (callGenerateSqlAPI
      (replying (Fulfilled \<lparr>status = 200,
         text_body = js ''{"sql": "SELECT 1", "explanation": null}'',
         json_body = Inr (JObj [(js ''sql'', JStr (js ''SELECT 1'')),
                                (js ''explanation'', JNull)])\<rparr>))
      (js ''q'') (Some (js ''keyword'')))
     = Some (Inr \<lparr>result_sql = JStr (js ''SELECT 1''), result_explanation = JStr []\<rparr>)\<close>
  using callGenerateSqlAPI_success [of
      \<open>replying (Fulfilled \<lparr>status = 200,
         text_body = js ''{"sql": "SELECT 1", "explanation": null}'',
         json_body = Inr (JObj [(js ''sql'', JStr (js ''SELECT 1'')),
                                (js ''explanation'', JNull)])\<rparr>)\<close>
      \<open>js ''q''\<close> \<open>Some (js ''keyword'')\<close>
      \<open>\<lparr>status = 200, text_body = js ''{"sql": "SELECT 1", "explanation": null}'',
         json_body = Inr (JObj [(js ''sql'', JStr (js ''SELECT 1'')),
                                (js ''explanation'', JNull)])\<rparr>\<close>
      \<open>JObj [(js ''sql'', JStr (js ''SELECT 1'')), (js ''explanation'', JNull)]\<close>]
  by (simp add: spec_field_def replying_def js_def)

text \<open>
  C2 as stated fails. For the body \<open>{"sql": 42}\<close> the call returns the number 42 as
  \<open>sql\<close>, neither a string nor empty; for the body \<open>null\<close> it returns nothing: reading
  \<open>data.sql\<close> throws.
\<close>

theorem callGenerateSqlAPI_not_strings:
  \<open>\<not> returns_strings (snd (callGenerateSqlAPI
      (replying (Fulfilled \<lparr>status = 200, text_body = js ''{"sql": 42}'',
         json_body = Inr (JObj [(js ''sql'', JNum 42)])\<rparr>))
      (js ''q'') (Some (js ''keyword''))))
   \<and> snd (callGenerateSqlAPI
      (replying (Fulfilled \<lparr>status = 200, text_body = js ''{"sql": 42}'',
         json_body = Inr (JObj [(js ''sql'', JNum 42)])\<rparr>))
      (js ''q'') (Some (js ''keyword'')))
     = Some (Inr \<lparr>result_sql = JNum 42, result_explanation = JStr []\<rparr>)
   \<and> \<not> returns_strings (snd (callGenerateSqlAPI
      (replying (Fulfilled \<lparr>status = 200, text_body = js ''null'', json_body = Inr JNull\<rparr>))
      (js ''q'') (Some (js ''keyword''))))
   \<and> snd (callGenerateSqlAPI
      (replying (Fulfilled \<lparr>status = 200, text_body = js ''null'', json_body = Inr JNull\<rparr>))
      (js ''q'') (Some (js ''keyword'')))
     = Some (Inl (cannot_read ''null'' (js ''sql'')))\<close>
  by (simp add: returns_strings_def callGenerateSqlAPI_def Let_def replying_def settle_def
        read_response_def ok_def get_prop_def nullish_def Object_prototype_def js_def)

text \<open>
  C3. Every call issues exactly one request. When the response has a status outside 200
  to 299, the call throws one Error whose message is the text of the body; when the
  request is rejected, the call throws that rejection; and while the request has not
  settled the call has not either, however long that takes.
\<close>

theorem callGenerateSqlAPI_failure:
  "fst (callGenerateSqlAPI fetch question modelId) = [api_request question modelId]
   \<and> (fetch (api_request question modelId) = Fulfilled res
        \<and> (status res < 200 \<or> 299 < status res) \<longrightarrow>
      snd (callGenerateSqlAPI fetch question modelId)
        = Some (Inl (JsError (js ''Error'') (text_body res))))
   \<and> (fetch (api_request question modelId) = Rejected err \<longrightarrow>
      snd (callGenerateSqlAPI fetch question modelId) = Some (Inl err))
   \<and> (fetch (api_request question modelId) = Pending \<longrightarrow>
      snd (callGenerateSqlAPI fetch question modelId) = None)"
  by (auto simp: callGenerateSqlAPI_def Let_def settle_def read_response_def ok_def)

text \<open>A response of status 500 with the body \<open>boom\<close>, a failed request, a silent server.\<close>

theorem callGenerateSqlAPI_failure_witness:
  "299 < status \<lparr>status = 500, text_body = js ''boom'',
                  json_body = Inl (JsError (js ''SyntaxError'') (js ''Unexpected token''))\<rparr>
   \<and> snd (callGenerateSqlAPI
        (replying (Fulfilled \<lparr>status = 500, text_body = js ''boom'',
           json_body = Inl (JsError (js ''SyntaxError'') (js ''Unexpected token''))\<rparr>))
        (js ''q'') (Some (js ''keyword'')))
       = Some (Inl (JsError (js ''Error'') (js ''boom'')))
   \<and> snd (callGenerateSqlAPI
        (replying (Rejected (JsError (js ''TypeError'') (js ''Failed to fetch''))))
        (js ''q'') (Some (js ''keyword'')))
       = Some (Inl (JsError (js ''TypeError'') (js ''Failed to fetch'')))
   \<and> snd (callGenerateSqlAPI (replying Pending) (js ''q'') (Some (js ''keyword''))) = None
   \<and> length (fst (callGenerateSqlAPI (replying Pending) (js ''q'') (Some (js ''keyword'')))) = 1"
  using callGenerateSqlAPI_failure [of
          "replying (Fulfilled \<lparr>status = 500, text_body = js ''boom'',
             json_body = Inl (JsError (js ''SyntaxError'') (js ''Unexpected token''))\<rparr>)"
          "js ''q''" "Some (js ''keyword'')"
          "\<lparr>status = 500, text_body = js ''boom'',
             json_body = Inl (JsError (js ''SyntaxError'') (js ''Unexpected token''))\<rparr>"]
        callGenerateSqlAPI_failure [of
          "replying (Rejected (JsError (js ''TypeError'') (js ''Failed to fetch'')))"
          "js ''q''" "Some (js ''keyword'')" _
          "JsError (js ''TypeError'') (js ''Failed to fetch'')"]
        callGenerateSqlAPI_failure [of "replying Pending" "js ''q''" "Some (js ''keyword'')"]
  by (simp add: replying_def)




text \<open>
  C10. Every request of the client, in both components, is a POST whose body has
  \<open>schema_path\<close> \<open>schema_tree.json\<close>, \<open>keywords_path\<close> \<open>keyword_to_tables.json\<close> and
  \<open>dialect\<close> \<open>mysql\<close>. When the model identifier is omitted or falsy (of a string: empty),
  the \<open>model\<close> of the body is \<open>gpt-5\<close>, which is not the identifier \<open>keyword\<close> of the basic
  endpoint, and the request goes to the basic endpoint; the boxed component always sends
  \<open>gpt-5\<close> to that endpoint.
\<close>

theorem payload_constants_and_default_model:
  "fst (callGenerateSqlAPI fetch question modelId) = [api_request question modelId]
   \<and> fst (callGenerateSqlAPI_boxed fetch question) = [api_request_boxed question]
   \<and> http_method (api_request question modelId) = js ''POST''
   \<and> member (body (api_request question modelId)) (js ''schema_path'')
       = Inr (JStr (js ''schema_tree.json''))
   \<and> member (body (api_request question modelId)) (js ''keywords_path'')
       = Inr (JStr (js ''keyword_to_tables.json''))
   \<and> member (body (api_request question modelId)) (js ''dialect'') = Inr (JStr (js ''mysql''))
   \<and> http_method (api_request_boxed question) = js ''POST''
   \<and> member (body (api_request_boxed question)) (js ''schema_path'')
       = Inr (JStr (js ''schema_tree.json''))
   \<and> member (body (api_request_boxed question)) (js ''keywords_path'')
       = Inr (JStr (js ''keyword_to_tables.json''))
   \<and> member (body (api_request_boxed question)) (js ''dialect'') = Inr (JStr (js ''mysql''))
   \<and> member (body (api_request_boxed question)) (js ''model'') = Inr (JStr (js ''gpt-5''))
   \<and> url (api_request_boxed question) = JStr (js ''https://generate-sql.local/generate_sql'')
   \<and> (\<not> truthy (arg_value modelId) \<longrightarrow>
        member (body (api_request question modelId)) (js ''model'') = Inr (JStr (js ''gpt-5''))
        \<and> url (api_request question modelId)
            = JStr (js ''https://generate-sql.local/generate_sql''))
   \<and> (\<not> truthy (arg_value modelId)) = (modelId = None \<or> modelId = Some [])
   \<and> js ''gpt-5'' \<noteq> js ''keyword''
   \<and> get_prop ENDPOINTS (js ''keyword'') = JStr (js ''https://generate-sql.local/generate_sql'')"
proof -
  have falsy: "member (body (api_request question modelId)) (js ''model'')
        = Inr (JStr (js ''gpt-5''))
      \<and> url (api_request question modelId) = JStr (js ''https://generate-sql.local/generate_sql'')"
    if "\<not> truthy (arg_value modelId)"
    using that unfolding falsy_arg
    by (auto simp: payload_model url_omitted url_empty arg_value_def js_or_def)
  have requests: "fst (callGenerateSqlAPI fetch question modelId) = [api_request question modelId]"
    "fst (callGenerateSqlAPI_boxed fetch question) = [api_request_boxed question]"
    by (simp_all add: callGenerateSqlAPI_def callGenerateSqlAPI_boxed_def Let_def)
  have post: "http_method (api_request question modelId) = js ''POST''"
    "http_method (api_request_boxed question) = js ''POST''"
    "url (api_request_boxed question) = JStr (js ''https://generate-sql.local/generate_sql'')"
    by (simp_all add: api_request_def api_request_boxed_def API_URL_def)
  have names: "js ''gpt-5'' \<noteq> js ''keyword''"
    by (simp add: js_def)
  show ?thesis
    using falsy requests post names
    by (simp add: payload_fixed payload_fixed_boxed falsy_arg get_prop_ENDPOINTS_keyword)
qed

text \<open>The identifier omitted, and the empty identifier.\<close>

theorem payload_constants_and_default_model_witness:
  "\<not> truthy (arg_value None)
   \<and> member (body (api_request (js ''q'') None)) (js ''model'') = Inr (JStr (js ''gpt-5''))
   \<and> url (api_request (js ''q'') None) = JStr (js ''https://generate-sql.local/generate_sql'')
   \<and> \<not> truthy (arg_value (Some []))
   \<and> member (body (api_request (js ''q'') (Some []))) (js ''model'') = Inr (JStr (js ''gpt-5''))
   \<and> url (api_request (js ''q'') (Some [])) = JStr (js ''https://generate-sql.local/generate_sql'')"
  using payload_constants_and_default_model [of "replying Pending" "js ''q''" None]
        payload_constants_and_default_model [of "replying Pending" "js ''q''" "Some []"]
  by (simp add: arg_value_def)

end
